theory Spec2Isabelle
  imports Complex_Main
begin

section \<open>JavaScript numbers\<close>

text \<open>
  The script computes with the number type of JavaScript, the IEEE doubles. The values
  that reach its arithmetic are integers (identifiers of the fixture, quantities read
  with \<^verbatim>\<open>parseInt\<close>), \<^verbatim>\<open>NaN\<close>, the two infinities, and \<^verbatim>\<open>null\<close> where \<^verbatim>\<open>JSON.stringify\<close>
  has written a value that is not finite. An integer stands for the double of that
  value; the result of an addition is rounded to the nearest double, ties to the even
  significand, as the hardware does.
\<close>

datatype jsnum = Num int | NaN | PosInf | NegInf | Null

text \<open>The number of binary digits of a positive integer.\<close>

function bitlen :: "int \<Rightarrow> nat" where
  "bitlen n = (if n \<le> 0 then 0 else Suc (bitlen (n div 2)))"
  by pat_completeness auto
termination
  by (relation "measure nat") auto

declare bitlen.simps [simp del]

text \<open>
  The nearest integer whose significand has 53 binary digits: the last \<open>k\<close> digits of
  a longer integer are rounded off, to the even neighbour on a tie.
\<close>

definition nearestDouble :: "int \<Rightarrow> int" where
  "nearestDouble n =
     (let a = \<bar>n\<bar>;
          k = bitlen a - 53;
          u = 2 ^ k;
          q = a div u;
          r = a mod u;
          q' = (if u < 2 * r \<or> (2 * r = u \<and> odd q) then q + 1 else q)
      in sgn n * (q' * u))"

text \<open>Rounding with overflow: a result of \<open>2 ^ 1024\<close> or more is an infinity.\<close>

definition roundDouble :: "int \<Rightarrow> jsnum" where
  "roundDouble n =
     (let r = nearestDouble n
      in if 2 ^ 1024 \<le> r then PosInf
         else if r \<le> - (2 ^ 1024) then NegInf
         else Num r)"

text \<open>\<^verbatim>\<open>ToNumber\<close> on the values above: \<^verbatim>\<open>null\<close> becomes \<open>0\<close>.\<close>

fun ToNumber :: "jsnum \<Rightarrow> jsnum" where
  "ToNumber Null = Num 0"
| "ToNumber x = x"

text \<open>The operator \<^verbatim>\<open>+\<close> on two such values.\<close>

fun addNumbers :: "jsnum \<Rightarrow> jsnum \<Rightarrow> jsnum" where
  "addNumbers (Num a) (Num b) = roundDouble (a + b)"
| "addNumbers NaN _ = NaN"
| "addNumbers _ NaN = NaN"
| "addNumbers PosInf NegInf = NaN"
| "addNumbers NegInf PosInf = NaN"
| "addNumbers PosInf _ = PosInf"
| "addNumbers _ PosInf = PosInf"
| "addNumbers NegInf _ = NegInf"
| "addNumbers _ NegInf = NegInf"
| "addNumbers (Num a) Null = roundDouble a"
| "addNumbers Null (Num b) = roundDouble b"
| "addNumbers Null Null = Num 0"

definition jsAdd :: "jsnum \<Rightarrow> jsnum \<Rightarrow> jsnum" where
  "jsAdd a b = addNumbers (ToNumber a) (ToNumber b)"

text \<open>
  The comparisons \<^verbatim>\<open>x <= 0\<close> and \<^verbatim>\<open>x > 0\<close>. Both are false for \<^verbatim>\<open>NaN\<close>; \<^verbatim>\<open>null\<close> compares
  as \<open>0\<close>.
\<close>

fun leZero :: "jsnum \<Rightarrow> bool" where
  "leZero (Num n) = (n \<le> 0)"
| "leZero NaN = False"
| "leZero PosInf = False"
| "leZero NegInf = True"
| "leZero Null = True"

fun gtZero :: "jsnum \<Rightarrow> bool" where
  "gtZero (Num n) = (0 < n)"
| "gtZero NaN = False"
| "gtZero PosInf = True"
| "gtZero NegInf = False"
| "gtZero Null = False"

text \<open>
  What \<^verbatim>\<open>JSON.stringify\<close> followed by \<^verbatim>\<open>JSON.parse\<close> makes of a number: a finite number
  comes back, every other value comes back as \<^verbatim>\<open>null\<close>.
\<close>

fun jsonNumber :: "jsnum \<Rightarrow> jsnum" where
  "jsonNumber (Num n) = Num n"
| "jsonNumber _ = Null"

section \<open>Data model of main.js\<close>

text \<open>
  The storefront script keeps three kinds of records. A product and a user come from the
  fixture documents \<^verbatim>\<open>data/products.json\<close> and \<^verbatim>\<open>data/users.json\<close>; a cart line is the
  object literal that \<^verbatim>\<open>addToCart\<close> pushes. The fields carry the owner's name as a prefix
  (\<^verbatim>\<open>item.id\<close> is \<open>item_id\<close>), since the three objects share the keys \<^verbatim>\<open>id\<close> and
  \<^verbatim>\<open>name\<close>. Identifiers are the integers of the fixture. The quantity of a line is
  whatever number the caller passed or an addition produced. A text is the sequence of
  the UTF-8 bytes of the JavaScript string.
\<close>

record product =
  product_id :: int
  product_name :: string
  product_price :: rat
  product_image_url :: string
  product_description :: string
  product_sizes :: "string list"
  product_category :: string

record user =
  user_id :: int
  user_name :: string
  user_email :: string
  user_password :: string
  user_address :: string

record cart_line =
  item_id :: int
  item_name :: string
  item_price :: rat
  item_image_url :: string
  item_quantity :: jsnum
  item_size :: string

type_synonym cart = "cart_line list"

subsection \<open>Web storage and JSON\<close>

text \<open>
  A storage key holds a text or nothing. The script writes only \<^verbatim>\<open>JSON.stringify\<close> of a
  value and reads through \<^verbatim>\<open>JSON.parse\<close>, so a stored text is one of three kinds: the
  encoding of a value (\<open>Json v\<close>, which \<^verbatim>\<open>JSON.parse\<close> turns back into \<open>v\<close>), the empty
  text (falsy in JavaScript), or any other text outside the JSON grammar (\<open>Malformed\<close>),
  on which \<^verbatim>\<open>JSON.parse\<close> throws a \<^verbatim>\<open>SyntaxError\<close>. \<open>None\<close> is the \<^verbatim>\<open>null\<close> that
  \<^verbatim>\<open>getItem\<close> returns for an absent key.
\<close>

datatype 'a stored = Json 'a | EmptyText | Malformed

datatype js_error = SyntaxError

fun JSON_parse :: "'a stored \<Rightarrow> js_error + 'a" where
  "JSON_parse (Json v) = Inr v"
| "JSON_parse EmptyText = Inl SyntaxError"
| "JSON_parse Malformed = Inl SyntaxError"

definition JSON_stringify :: "'a \<Rightarrow> 'a stored" where
  "JSON_stringify v = Json v"

text \<open>
  The encoding of a cart line writes \<^verbatim>\<open>null\<close> for a quantity that is not finite, so the
  line that comes back from the store is the line with \<open>jsonNumber\<close> of its quantity.
\<close>

definition jsonLine :: "cart_line \<Rightarrow> cart_line" where
  "jsonLine item = item\<lparr>item_quantity := jsonNumber (item_quantity item)\<rparr>"

text \<open>The truthiness test of \<^verbatim>\<open>x ? a : b\<close> on what \<^verbatim>\<open>getItem\<close> returned.\<close>

fun truthy :: "'a stored option \<Rightarrow> bool" where
  "truthy None = False"
| "truthy (Some EmptyText) = False"
| "truthy (Some (Json v)) = True"
| "truthy (Some Malformed) = True"

subsection \<open>parseInt\<close>

text \<open>
  \<^verbatim>\<open>parseInt(id, 10)\<close> receives a number or a string. On a string it skips the leading
  white space, reads an optional sign and then the longest run of decimal digits; with
  no digit the result is \<^verbatim>\<open>NaN\<close>, otherwise the double nearest to the digits' value. The
  white space is that of \<^verbatim>\<open>StrWhiteSpaceChar\<close>: tab, line feed, vertical tab, form feed,
  carriage return, space, and beyond ASCII the code points U+00A0, U+1680, U+2000 to
  U+200A, U+2028, U+2029, U+202F, U+205F, U+3000 and U+FEFF, met here as their UTF-8
  bytes.
\<close>

datatype js_value = JSNumber int | JSString string

definition ws1 :: "nat \<Rightarrow> bool" where
  "ws1 a = (a \<in> {9, 10, 11, 12, 13, 32})"

definition ws2 :: "nat \<Rightarrow> nat \<Rightarrow> bool" where
  "ws2 a b = (a = 194 \<and> b = 160)"

definition ws3 :: "nat \<Rightarrow> nat \<Rightarrow> nat \<Rightarrow> bool" where
  "ws3 a b c =
     ((a = 225 \<and> b = 154 \<and> c = 128) \<or>
      (a = 226 \<and> b = 128 \<and> (128 \<le> c \<and> c \<le> 138 \<or> c = 168 \<or> c = 169 \<or> c = 175)) \<or>
      (a = 226 \<and> b = 129 \<and> c = 159) \<or>
      (a = 227 \<and> b = 128 \<and> c = 128) \<or>
      (a = 239 \<and> b = 187 \<and> c = 191))"

fun skipWhiteSpace :: "nat list \<Rightarrow> nat list" where
  "skipWhiteSpace (a # b # c # r) =
     (if ws1 a then skipWhiteSpace (b # c # r)
      else if ws2 a b then skipWhiteSpace (c # r)
      else if ws3 a b c then skipWhiteSpace r
      else a # b # c # r)"
| "skipWhiteSpace [a, b] =
     (if ws1 a then skipWhiteSpace [b] else if ws2 a b then [] else [a, b])"
| "skipWhiteSpace [a] = (if ws1 a then [] else [a])"
| "skipWhiteSpace [] = []"

definition isDigit :: "nat \<Rightarrow> bool" where
  "isDigit a = (48 \<le> a \<and> a \<le> 57)"

definition digitsValue :: "nat list \<Rightarrow> int" where
  "digitsValue ds = foldl (\<lambda>acc a. 10 * acc + (int a - 48)) 0 ds"

text \<open>\<open>- x\<close> on what a run of digits can give.\<close>

fun negate :: "jsnum \<Rightarrow> jsnum" where
  "negate (Num n) = Num (- n)"
| "negate PosInf = NegInf"
| "negate NegInf = PosInf"
| "negate NaN = NaN"
| "negate Null = Num 0"

definition parseDecimal :: "nat list \<Rightarrow> jsnum" where
  "parseDecimal bs =
     (let ds = takeWhile isDigit bs
      in if ds = [] then NaN else roundDouble (digitsValue ds))"

definition parseIntString :: "string \<Rightarrow> jsnum" where
  "parseIntString s =
     (case skipWhiteSpace (map of_char s) of
        [] \<Rightarrow> NaN
      | a # r \<Rightarrow>
          if a = 45 then negate (parseDecimal r)
          else if a = 43 then parseDecimal r
          else parseDecimal (a # r))"

text \<open>
  On a number \<^verbatim>\<open>parseInt\<close> first makes its text. An integer below \<open>10 ^ 21\<close> is written
  with all its digits and parses to itself. From \<open>10 ^ 21\<close> on the text is in exponent
  form, \<^verbatim>\<open>d.ddde+N\<close>, with the fewest digits that still name the double, and \<^verbatim>\<open>parseInt\<close>
  reads the one digit before the point. That digit is \<open>d\<close> when \<open>d\<close> times a power of
  ten rounds to the number, and the number's own first digit otherwise.
\<close>

function decLen :: "int \<Rightarrow> nat" where
  "decLen n = (if n < 10 then 1 else Suc (decLen (n div 10)))"
  by pat_completeness auto
termination
  by (relation "measure nat") auto

declare decLen.simps [simp del]

definition firstDigit :: "int \<Rightarrow> int" where
  "firstDigit v =
     (let p = 10 ^ (decLen v - 1)
      in case find (\<lambda>d. nearestDouble (d * p) = v) [1, 2, 3, 4, 5, 6, 7, 8, 9, 10] of
           Some d \<Rightarrow> if d = 10 then 1 else d
         | None \<Rightarrow> v div p)"

fun parseInt :: "js_value \<Rightarrow> jsnum" where
  "parseInt (JSNumber n) =
     (if \<bar>n\<bar> < 10 ^ 21 then Num n else Num (sgn n * firstDigit \<bar>n\<bar>))"
| "parseInt (JSString s) = parseIntString s"

text \<open>\<^verbatim>\<open>item.id === idToRemove\<close>: a number equals no value but itself.\<close>

definition strictEq :: "int \<Rightarrow> jsnum \<Rightarrow> bool" where
  "strictEq n m = (m = Num n)"

section \<open>The page's state\<close>

text \<open>
  Everything the functions read or write: the two fixture documents as \<^verbatim>\<open>fetch\<close> delivers
  them (\<open>None\<close> when the request fails, the response is not ok or its body is not JSON),
  the list of requests made so far, the module variable \<^verbatim>\<open>sessionUsers\<close>, the key
  \<^verbatim>\<open>currentUser\<close> of \<^verbatim>\<open>sessionStorage\<close>, the key \<^verbatim>\<open>shoppingCart\<close> of \<^verbatim>\<open>localStorage\<close>, and
  the messages shown with \<^verbatim>\<open>alert\<close>. The fixture fields are never assigned by any function
  below. Console output and the re-rendering of the page (\<^verbatim>\<open>updateUserNav\<close>,
  \<^verbatim>\<open>updateCartIconCount\<close>, \<^verbatim>\<open>displayCartItems\<close>) only read the stores and are left out.
\<close>

record state =
  products_json :: "product list option"
  users_json :: "user list option"
  fetched :: "string list"
  sessionUsers :: "user list"
  sessionStorage :: "user stored option"
  localStorage :: "cart stored option"
  alerts :: "string list"

definition alert :: "string \<Rightarrow> state \<Rightarrow> state" where
  "alert msg s = s\<lparr>alerts := alerts s @ [msg]\<rparr>"

text \<open>
  How a call ends without its effect: the early returns of \<^verbatim>\<open>addToCart\<close>,
  \<^verbatim>\<open>registerUser\<close> and \<^verbatim>\<open>loginUser\<close>, named after the condition that takes them, and an
  exception that no handler catches.
\<close>

datatype failure =
  MissingSize | NonPositiveQuantity | ProductNotFound
| DuplicateEmail | InvalidCredentials | Uncaught js_error

subsection \<open>Fixture access\<close>

definition fetchProducts :: "state \<Rightarrow> product list \<times> state" where
  "fetchProducts s =
     (let s1 = s\<lparr>fetched := fetched s @ [''data/products.json'']\<rparr>
      in case products_json s of
           Some products \<Rightarrow> (products, s1)
         | None \<Rightarrow> ([], s1))"

definition fetchProductById :: "js_value \<Rightarrow> state \<Rightarrow> product option \<times> state" where
  "fetchProductById ident s =
     (let (products, s1) = fetchProducts s;
          productId = parseInt ident
      in (find (\<lambda>p. strictEq (product_id p) productId) products, s1))"

definition fetchUsers :: "state \<Rightarrow> user list \<times> state" where
  "fetchUsers s =
     (if length (sessionUsers s) > 0 then (sessionUsers s, s)
      else
        let s1 = s\<lparr>fetched := fetched s @ [''data/users.json'']\<rparr>
        in case users_json s of
             Some users \<Rightarrow> (users, s1\<lparr>sessionUsers := users\<rparr>)
           | None \<Rightarrow> ([], s1\<lparr>sessionUsers := []\<rparr>))"

subsection \<open>Session store\<close>

definition getCurrentUser :: "state \<Rightarrow> js_error + user option" where
  "getCurrentUser s =
     (let userJson = sessionStorage s
      in if truthy userJson
         then (case userJson of
                 Some t \<Rightarrow> (case JSON_parse t of Inl e \<Rightarrow> Inl e | Inr u \<Rightarrow> Inr (Some u))
               | None \<Rightarrow> Inr None)
         else Inr None)"

definition saveCurrentUser :: "user \<Rightarrow> state \<Rightarrow> state" where
  "saveCurrentUser userData s = s\<lparr>sessionStorage := Some (JSON_stringify userData)\<rparr>"

definition clearCurrentUser :: "state \<Rightarrow> state" where
  "clearCurrentUser s = s\<lparr>sessionStorage := None\<rparr>"

subsection \<open>Registration and login\<close>

text \<open>
  \<^verbatim>\<open>Math.max(...) + 1\<close> is an addition of doubles. The greatest identifier is a finite
  double, and adding one to it cannot overflow, so the sum is \<open>nearestDouble\<close> of the exact
  sum. \<open>allocatedId\<close> is the expression after \<^verbatim>\<open>id:\<close> in the object literal.
\<close>

definition allocatedId :: "user list \<Rightarrow> int" where
  "allocatedId users =
     (if length users > 0 then nearestDouble (Max (set (map user_id users)) + 1) else 1)"

definition registerUser :: "string \<Rightarrow> string \<Rightarrow> string \<Rightarrow> state \<Rightarrow> (failure + unit) \<times> state" where
  "registerUser name email password s =
     (let (users, s1) = fetchUsers s
      in if find (\<lambda>u. user_email u = email) users \<noteq> None
         then (Inl DuplicateEmail,
               alert ''Email already exists. Please use a different email.'' s1)
         else
           let newUser = \<lparr>user_id = allocatedId users,
                          user_name = name,
                          user_email = email,
                          user_password = password,
                          user_address = ''''\<rparr>;
               s2 = s1\<lparr>sessionUsers := sessionUsers s1 @ [newUser]\<rparr>
           in (Inr (), saveCurrentUser newUser s2))"

definition loginUser :: "string \<Rightarrow> string \<Rightarrow> state \<Rightarrow> (failure + unit) \<times> state" where
  "loginUser email password s =
     (let (users, s1) = fetchUsers s;
          found = find (\<lambda>u. user_email u = email) users
      in case found of
           Some u \<Rightarrow>
             if user_password u = password then (Inr (), saveCurrentUser u s1)
             else (Inl InvalidCredentials, alert ''Invalid email or password.'' s1)
         | None \<Rightarrow> (Inl InvalidCredentials, alert ''Invalid email or password.'' s1))"

definition logoutUser :: "state \<Rightarrow> state" where
  "logoutUser s = alert ''You have been logged out.'' (clearCurrentUser s)"

subsection \<open>Cart store\<close>

definition getCart :: "state \<Rightarrow> js_error + cart" where
  "getCart s =
     (let cartJson = localStorage s
      in if truthy cartJson
         then (case cartJson of Some t \<Rightarrow> JSON_parse t | None \<Rightarrow> Inr [])
         else Inr [])"

definition saveCart :: "cart \<Rightarrow> state \<Rightarrow> state" where
  "saveCart c s = s\<lparr>localStorage := Some (JSON_stringify (map jsonLine c))\<rparr>"

text \<open>\<^verbatim>\<open>Array.prototype.findIndex\<close>: the first index whose element passes, \<open>None\<close> for \<open>-1\<close>.\<close>

fun findIndex :: "('a \<Rightarrow> bool) \<Rightarrow> 'a list \<Rightarrow> nat option" where
  "findIndex P [] = None"
| "findIndex P (x # xs) = (if P x then Some 0 else map_option Suc (findIndex P xs))"

text \<open>\<^verbatim>\<open>cart.splice(i, 1)\<close> removes the element at index \<open>i\<close>.\<close>

definition splice1 :: "nat \<Rightarrow> 'a list \<Rightarrow> 'a list" where
  "splice1 i xs = take i xs @ drop (Suc i) xs"

text \<open>
  The test of the three arrow functions over cart lines,
  \<^verbatim>\<open>item => item.id === ident && item.size === size\<close>, where \<open>ident\<close> is \<^verbatim>\<open>product.id\<close> in
  \<^verbatim>\<open>addToCart\<close> and the result of \<^verbatim>\<open>parseInt\<close> in the other two.
\<close>

definition sameLine :: "jsnum \<Rightarrow> string \<Rightarrow> cart_line \<Rightarrow> bool" where
  "sameLine ident sz item = (strictEq (item_id item) ident \<and> item_size item = sz)"

text \<open>
  The branch of \<^verbatim>\<open>addToCart\<close> over \<^verbatim>\<open>existingItemIndex\<close>: \<^verbatim>\<open>item.quantity += quantity\<close> in
  place, or push.
\<close>

definition addLine :: "product \<Rightarrow> jsnum \<Rightarrow> string \<Rightarrow> cart \<Rightarrow> cart" where
  "addLine p quantity sz c =
     (case findIndex (sameLine (Num (product_id p)) sz) c of
        Some existingItemIndex \<Rightarrow>
          list_update c existingItemIndex
            ((c ! existingItemIndex)
               \<lparr>item_quantity := jsAdd (item_quantity (c ! existingItemIndex)) quantity\<rparr>)
      | None \<Rightarrow>
          c @ [\<lparr>item_id = product_id p,
                item_name = product_name p,
                item_price = product_price p,
                item_image_url = product_image_url p,
                item_quantity = quantity,
                item_size = sz\<rparr>])"

text \<open>
  \<^verbatim>\<open>addToCart\<close>. The size is \<open>None\<close> when the argument is absent; \<^verbatim>\<open>!size\<close> holds for an
  absent size and for the empty text. The quantity is what the caller computed with
  \<^verbatim>\<open>parseInt\<close>, \<^verbatim>\<open>NaN\<close> for a blank box; the only caller passes it, so the default value of
  the parameter is not modelled. The three early returns come before the cart is
  read; an exception of \<^verbatim>\<open>getCart\<close> leaves the function before \<^verbatim>\<open>saveCart\<close>.
\<close>

definition addToCart :: "js_value \<Rightarrow> jsnum \<Rightarrow> string option \<Rightarrow> state \<Rightarrow> (failure + unit) \<times> state" where
  "addToCart productId quantity size_arg s =
     (case size_arg of
        None \<Rightarrow> (Inl MissingSize, alert ''Please select a size.'' s)
      | Some sz \<Rightarrow>
          if sz = '''' then (Inl MissingSize, alert ''Please select a size.'' s)
          else if leZero quantity then (Inl NonPositiveQuantity, s)
          else
            let (found, s1) = fetchProductById productId s
            in (case found of
                  None \<Rightarrow> (Inl ProductNotFound, s1)
                | Some p \<Rightarrow>
                    (case getCart s1 of
                       Inl e \<Rightarrow> (Inl (Uncaught e), s1)
                     | Inr c \<Rightarrow>
                         (Inr (),
                          alert (product_name p @ '' (Size: '' @ sz @ '') added to cart!'')
                            (saveCart (addLine p quantity sz c) s1)))))"

definition removeFromCart :: "js_value \<Rightarrow> string \<Rightarrow> state \<Rightarrow> (failure + unit) \<times> state" where
  "removeFromCart productId sz s =
     (case getCart s of
        Inl e \<Rightarrow> (Inl (Uncaught e), s)
      | Inr c \<Rightarrow>
          let idToRemove = parseInt productId
          in (Inr (), saveCart (filter (\<lambda>item. \<not> sameLine idToRemove sz item) c) s))"

definition updateCartQuantity :: "js_value \<Rightarrow> string \<Rightarrow> jsnum \<Rightarrow> state \<Rightarrow> (failure + unit) \<times> state" where
  "updateCartQuantity productId sz newQuantity s =
     (case getCart s of
        Inl e \<Rightarrow> (Inl (Uncaught e), s)
      | Inr c \<Rightarrow>
          let idToUpdate = parseInt productId
          in (case findIndex (sameLine idToUpdate sz) c of
                Some itemIndex \<Rightarrow>
                  if gtZero newQuantity
                  then (Inr (),
                        saveCart (list_update c itemIndex
                                    ((c ! itemIndex)\<lparr>item_quantity := newQuantity\<rparr>)) s)
                  else (Inr (), saveCart (splice1 itemIndex c) s)
              | None \<Rightarrow> (Inr (), s)))"

section \<open>Predicates of the specification\<close>

text \<open>
  The cart invariant of the data model: at most one line for each pair of product
  identifier and size, and every quantity an integer that is at least one.
\<close>

definition cartKey :: "cart_line \<Rightarrow> int \<times> string" where
  "cartKey item = (item_id item, item_size item)"

definition uniqueLines :: "cart \<Rightarrow> bool" where
  "uniqueLines c = distinct (map cartKey c)"

definition positiveQuantities :: "cart \<Rightarrow> bool" where
  "positiveQuantities c =
     list_all (\<lambda>item. case item_quantity item of Num n \<Rightarrow> 1 \<le> n | _ \<Rightarrow> False) c"

definition cartInvariant :: "cart \<Rightarrow> bool" where
  "cartInvariant c = (uniqueLines c \<and> positiveQuantities c)"

text \<open>
  A cart as \<^verbatim>\<open>JSON.parse\<close> can return it: every quantity is a finite number or \<^verbatim>\<open>null\<close>.
\<close>

definition decodedCart :: "cart \<Rightarrow> bool" where
  "decodedCart c = (map jsonLine c = c)"

text \<open>
  The user directory as a caller sees it: what \<^verbatim>\<open>fetchUsers\<close> answers. That is the
  overlay when it has an entry, which after a seeding holds the users of the fixture
  followed by the users registered since, and the fixture otherwise.
\<close>

definition directory :: "state \<Rightarrow> user list" where
  "directory s = fst (fetchUsers s)"

text \<open>
  The identifier that registration allocates, in the words of the specification: the
  greatest identifier of the directory plus one, or one for an empty directory.
\<close>

definition nextUserId :: "user list \<Rightarrow> int" where
  "nextUserId users = (if users = [] then 1 else Max (set (map user_id users)) + 1)"

text \<open>The record that \<^verbatim>\<open>registerUser\<close> builds, for a given identifier.\<close>

definition newAccount :: "int \<Rightarrow> string \<Rightarrow> string \<Rightarrow> string \<Rightarrow> user" where
  "newAccount ident name email password =
     \<lparr>user_id = ident, user_name = name, user_email = email, user_password = password,
      user_address = ''''\<rparr>"

text \<open>The line that \<^verbatim>\<open>addToCart\<close> pushes for a product: a copy of its name, price and image.\<close>

definition snapshot :: "product \<Rightarrow> jsnum \<Rightarrow> string \<Rightarrow> cart_line" where
  "snapshot p quantity sz =
     \<lparr>item_id = product_id p,
      item_name = product_name p,
      item_price = product_price p,
      item_image_url = product_image_url p,
      item_quantity = quantity,
      item_size = sz\<rparr>"

subsection \<open>Sample data\<close>

definition tee :: product where
  "tee = \<lparr>product_id = 42, product_name = ''Tee'', product_price = 10,
           product_image_url = ''images/tee.jpg'', product_description = ''A cotton tee'',
           product_sizes = [''S'', ''M'', ''L''], product_category = ''Tops''\<rparr>"

definition ann :: user where
  "ann = \<lparr>user_id = 5, user_name = ''Ann'', user_email = ''ann@example.com'',
           user_password = ''secret'', user_address = ''1 High Street''\<rparr>"

definition freshPage :: state where
  "freshPage = \<lparr>products_json = Some [tee], users_json = Some [ann], fetched = [],
                 sessionUsers = [], sessionStorage = None, localStorage = None,
                 alerts = []\<rparr>"

definition teeLine :: "int \<Rightarrow> string \<Rightarrow> cart_line" where
  "teeLine quantity sz = snapshot tee (Num quantity) sz"

definition doubledCart :: cart where
  "doubledCart = [teeLine 1 ''M'', teeLine 2 ''S'', teeLine 3 ''M'']"

definition pageWith :: "cart \<Rightarrow> state" where
  "pageWith c = freshPage\<lparr>localStorage := Some (JSON_stringify c)\<rparr>"

definition corruptPage :: state where
  "corruptPage = freshPage\<lparr>sessionStorage := Some Malformed, localStorage := Some Malformed\<rparr>"

definition emptyFixturePage :: state where
  "emptyFixturePage = freshPage\<lparr>users_json := Some []\<rparr>"

text \<open>A fixture whose one user has the identifier \<open>2 ^ 53 = 9007199254740992\<close>.\<close>

definition bigIdPage :: state where
  "bigIdPage = freshPage\<lparr>users_json := Some [ann\<lparr>user_id := 9007199254740992\<rparr>]\<rparr>"

section \<open>Facts about the numbers\<close>

lemma bitlen_bound: "0 \<le> n \<Longrightarrow> n < 2 ^ m \<Longrightarrow> bitlen n \<le> m"
proof (induction m arbitrary: n)
  case 0
  then have "n = 0" by simp
  then show ?case by (simp add: bitlen.simps)
next
  case (Suc m)
  show ?case
  proof (cases "n \<le> 0")
    case True
    then show ?thesis by (simp add: bitlen.simps)
  next
    case False
    from Suc.prems have "0 \<le> n div 2" "n div 2 < 2 ^ m" by simp_all
    from Suc.IH [OF this] False show ?thesis by (subst bitlen.simps) simp
  qed
qed

lemma nearestDouble_small: "\<bar>n\<bar> < 2 ^ 53 \<Longrightarrow> nearestDouble n = n"
proof -
  assume "\<bar>n\<bar> < 2 ^ 53"
  then have "bitlen \<bar>n\<bar> \<le> 53" by (intro bitlen_bound) simp_all
  then have "bitlen \<bar>n\<bar> - 53 = 0" by simp
  then show ?thesis by (simp add: nearestDouble_def Let_def mult_sgn_abs)
qed

lemma nearestDouble_exact: "\<bar>n\<bar> \<le> 2 ^ 53 \<Longrightarrow> nearestDouble n = n"
proof (cases "\<bar>n\<bar> < 2 ^ 53")
  case True
  then show ?thesis by (rule nearestDouble_small)
next
  case False
  assume "\<bar>n\<bar> \<le> 2 ^ 53"
  with False have "\<bar>n\<bar> = 9007199254740992" by simp
  then have "n = 9007199254740992 \<or> n = - 9007199254740992" by linarith
  moreover have "nearestDouble 9007199254740992 = 9007199254740992"
    and "nearestDouble (- 9007199254740992) = - 9007199254740992"
    by code_simp+
  ultimately show ?thesis by auto
qed



lemma parse42: "parseIntString ''42'' = Num 42"
  by code_simp

section \<open>Facts about the stores\<close>

lemma getCart_saveCart: "getCart (saveCart c s) = Inr (map jsonLine c)"
  by (simp add: getCart_def saveCart_def JSON_stringify_def)

lemma getCart_alert: "getCart (alert m s) = getCart s"
  by (simp add: getCart_def alert_def)

lemma localStorage_alert: "localStorage (alert m s) = localStorage s"
  by (simp add: alert_def)

lemma fetchProductById_state:
  "snd (fetchProductById ident s) = s\<lparr>fetched := fetched s @ [''data/products.json'']\<rparr>"
  by (simp add: fetchProductById_def fetchProducts_def Let_def split: option.splits)

lemma getCart_fetched: "getCart (s\<lparr>fetched := f\<rparr>) = getCart s"
  by (simp add: getCart_def)

lemma getCurrentUser_saved: "getCurrentUser (saveCurrentUser u s) = Inr (Some u)"
  by (simp add: getCurrentUser_def saveCurrentUser_def JSON_stringify_def)

lemma getCart_pageWith: "getCart (pageWith c) = Inr c"
  by (simp add: pageWith_def getCart_def JSON_stringify_def)

subsection \<open>Searching and splicing lists\<close>

lemma findIndex_None_iff: "findIndex P xs = None \<longleftrightarrow> (\<forall>x\<in>set xs. \<not> P x)"
  by (induction xs) auto


lemma set_splice1: "set (splice1 i c) \<subseteq> set c"
  by (auto simp: splice1_def dest: in_set_takeD in_set_dropD)

lemma distinct_map_splice1: "distinct (map f c) \<Longrightarrow> distinct (map f (splice1 i c))"
proof (induction c arbitrary: i)
  case Nil
  then show ?case by (simp add: splice1_def)
next
  case (Cons x xs)
  show ?case
  proof (cases i)
    case 0
    with Cons.prems show ?thesis by (simp add: splice1_def)
  next
    case (Suc k)
    have "splice1 (Suc k) (x # xs) = x # splice1 k xs" by (simp add: splice1_def)
    moreover have "f x \<notin> f ` set (splice1 k xs)"
      using Cons.prems set_splice1 [of k xs] by auto
    ultimately show ?thesis using Cons.IH [of k] Cons.prems Suc by simp
  qed
qed

lemma splice1_first_match:
  assumes "findIndex P c = Some i" "length (filter P c) \<le> 1"
  shows "splice1 i c = filter (\<lambda>x. \<not> P x) c"
  using assms
proof (induction c arbitrary: i)
  case Nil
  then show ?case by simp
next
  case (Cons x xs)
  show ?case
  proof (cases "P x")
    case True
    with Cons.prems have "filter P xs = []" "i = 0" by simp_all
    then have "filter (\<lambda>x. \<not> P x) xs = xs"
      by (simp add: filter_empty_conv)
    with True \<open>i = 0\<close> show ?thesis by (simp add: splice1_def)
  next
    case False
    with Cons.prems obtain k where k: "findIndex P xs = Some k" "i = Suc k" by auto
    from Cons.prems(2) False have "length (filter P xs) \<le> 1" by simp
    from Cons.IH [OF k(1) this] False k(2) show ?thesis by (simp add: splice1_def)
  qed
qed

lemma no_match_filter:
  "findIndex P c = None \<Longrightarrow> filter (\<lambda>x. \<not> P x) c = c"
  by (simp add: findIndex_None_iff)

lemma filter_update_other:
  "\<not> P (xs ! i) \<Longrightarrow> \<not> P y \<Longrightarrow> filter P (xs[i := y]) = filter P xs"
proof (induction xs arbitrary: i)
  case Nil
  then show ?case by simp
next
  case (Cons x xs)
  then show ?case by (cases i) simp_all
qed

subsection \<open>Cart lines\<close>

lemma sameLine_iff:
  "sameLine ident sz item \<longleftrightarrow> ident = Num (item_id item) \<and> item_size item = sz"
  by (simp add: sameLine_def strictEq_def)

lemma sameLine_key: "sameLine (Num k) sz item \<longleftrightarrow> cartKey item = (k, sz)"
  by (auto simp: sameLine_iff cartKey_def)

lemma sameLine_eta:
  "sameLine ident sz = (\<lambda>item. ident = Num (item_id item) \<and> item_size item = sz)"
  by (simp add: fun_eq_iff sameLine_iff)

lemma sameLine_jsonLine [simp]: "sameLine ident sz (jsonLine item) = sameLine ident sz item"
  by (simp add: sameLine_iff jsonLine_def)

lemma cartKey_quantity [simp]: "cartKey (item\<lparr>item_quantity := n\<rparr>) = cartKey item"
  by (simp add: cartKey_def)

lemma cartKey_jsonLine [simp]: "cartKey (jsonLine item) = cartKey item"
  by (simp add: jsonLine_def)

lemma cartKey_snapshot [simp]: "cartKey (snapshot p q sz) = (product_id p, sz)"
  by (simp add: cartKey_def snapshot_def)


lemma filter_jsonLine:
  "filter (sameLine ident sz) (map jsonLine c) = map jsonLine (filter (sameLine ident sz) c)"
  by (simp add: filter_map comp_def)

lemma filter_not_jsonLine:
  "filter (\<lambda>item. \<not> sameLine ident sz item) (map jsonLine c) =
     map jsonLine (filter (\<lambda>item. \<not> sameLine ident sz item) c)"
  by (simp add: filter_map comp_def)



lemma unique_at_most_one:
  "uniqueLines c \<Longrightarrow> length (filter (sameLine ident sz) c) \<le> 1"
proof (cases "\<exists>k. ident = Num k")
  case False
  then have "\<And>item. \<not> sameLine ident sz item" by (auto simp: sameLine_iff)
  then show ?thesis by simp
next
  case True
  then obtain k where k: "ident = Num k" by blast
  assume "uniqueLines c"
  then have "distinct (map cartKey c)" by (simp add: uniqueLines_def)
  then have "length (filter (\<lambda>item. cartKey item = (k, sz)) c) \<le> 1"
  proof (induction c)
    case Nil
    then show ?case by simp
  next
    case (Cons x xs)
    show ?case
    proof (cases "cartKey x = (k, sz)")
      case True
      with Cons.prems have "\<forall>item\<in>set xs. cartKey item \<noteq> (k, sz)"
        by (auto simp: image_iff)
      then have "filter (\<lambda>item. cartKey item = (k, sz)) xs = []"
        by (simp add: filter_empty_conv)
      with True show ?thesis by simp
    next
      case False
      with Cons show ?thesis by simp
    qed
  qed
  moreover have "sameLine (Num k) sz = (\<lambda>item. cartKey item = (k, sz))"
    by (simp add: fun_eq_iff sameLine_key)
  ultimately show ?thesis using k by simp
qed

lemma jsonLine_finite: "item_quantity item = Num n \<Longrightarrow> jsonLine item = item"
  by (simp add: jsonLine_def)

lemma positive_decoded: "positiveQuantities c \<Longrightarrow> decodedCart c"
proof -
  assume p: "positiveQuantities c"
  have "\<forall>item\<in>set c. jsonLine item = item"
  proof
    fix item assume "item \<in> set c"
    with p obtain n where "item_quantity item = Num n"
      by (cases "item_quantity item") (auto simp: positiveQuantities_def list_all_iff)
    then show "jsonLine item = item" by (rule jsonLine_finite)
  qed
  then show ?thesis by (simp add: decodedCart_def map_idI)
qed

subsection \<open>The branches of the cart functions\<close>

lemma fetchProductById_fst:
  "fst (fetchProductById ident s) =
     find (\<lambda>p. parseInt ident = Num (product_id p))
       (case products_json s of Some products \<Rightarrow> products | None \<Rightarrow> [])"
  by (simp add: fetchProductById_def fetchProducts_def Let_def strictEq_def split: option.splits)


lemma addToCart_no_size:
  "addToCart productId q None s = (Inl MissingSize, alert ''Please select a size.'' s)"
  "addToCart productId q (Some '''') s = (Inl MissingSize, alert ''Please select a size.'' s)"
  by (simp_all add: addToCart_def)

lemma addToCart_nonpositive:
  "sz \<noteq> '''' \<Longrightarrow> leZero q \<Longrightarrow>
   addToCart productId q (Some sz) s = (Inl NonPositiveQuantity, s)"
  by (simp add: addToCart_def)

lemma addToCart_not_found:
  assumes "sz \<noteq> ''''" "\<not> leZero q" "fst (fetchProductById productId s) = None"
  shows "addToCart productId q (Some sz) s =
           (Inl ProductNotFound, s\<lparr>fetched := fetched s @ [''data/products.json'']\<rparr>)"
proof -
  have "fetchProductById productId s =
          (None, s\<lparr>fetched := fetched s @ [''data/products.json'']\<rparr>)"
    using assms(3) fetchProductById_state [of productId s]
    by (cases "fetchProductById productId s") simp
  with assms(1,2) show ?thesis by (simp add: addToCart_def)
qed

lemma addToCart_added:
  assumes "sz \<noteq> ''''" "\<not> leZero q" "fst (fetchProductById productId s) = Some p"
    and "getCart s = Inr c"
  shows "addToCart productId q (Some sz) s =
           (Inr (), alert (product_name p @ '' (Size: '' @ sz @ '') added to cart!'')
                      (saveCart (addLine p q sz c)
                         (s\<lparr>fetched := fetched s @ [''data/products.json'']\<rparr>)))"
proof -
  have f: "fetchProductById productId s =
             (Some p, s\<lparr>fetched := fetched s @ [''data/products.json'']\<rparr>)"
    using assms(3) fetchProductById_state [of productId s]
    by (cases "fetchProductById productId s") simp
  have "getCart (s\<lparr>fetched := fetched s @ [''data/products.json'']\<rparr>) = Inr c"
    using assms(4) by (simp add: getCart_fetched)
  with assms(1,2) f show ?thesis by (simp add: addToCart_def)
qed

lemma addToCart_stored:
  assumes "sz \<noteq> ''''" "\<not> leZero q" "fst (fetchProductById productId s) = Some p"
    and "getCart s = Inr c"
  shows "getCart (snd (addToCart productId q (Some sz) s)) = Inr (map jsonLine (addLine p q sz c))"
  by (simp add: addToCart_added [OF assms] getCart_alert getCart_saveCart)


lemma updateCartQuantity_found_nonpositive:
  assumes "getCart s = Inr c" "findIndex (sameLine (parseInt productId) sz) c = Some i"
    and "\<not> gtZero n"
  shows "updateCartQuantity productId sz n s = (Inr (), saveCart (splice1 i c) s)"
  using assms by (simp add: updateCartQuantity_def)

lemma updateCartQuantity_found_positive:
  assumes "getCart s = Inr c" "findIndex (sameLine (parseInt productId) sz) c = Some i"
    and "gtZero n"
  shows "updateCartQuantity productId sz n s =
           (Inr (), saveCart (c[i := (c ! i)\<lparr>item_quantity := n\<rparr>]) s)"
  using assms by (simp add: updateCartQuantity_def)

lemma updateCartQuantity_absent:
  assumes "getCart s = Inr c" "findIndex (sameLine (parseInt productId) sz) c = None"
  shows "updateCartQuantity productId sz n s = (Inr (), s)"
  using assms by (simp add: updateCartQuantity_def)

lemma removeFromCart_decoded:
  assumes "getCart s = Inr c"
  shows "removeFromCart productId sz s =
           (Inr (), saveCart (filter (\<lambda>item. \<not> sameLine (parseInt productId) sz item) c) s)"
  using assms by (simp add: removeFromCart_def)

lemma leZero_not_gtZero: "leZero n \<Longrightarrow> \<not> gtZero n"
  by (cases n) simp_all

section \<open>Facts about the user directory\<close>

lemma fetchUsers_cached:
  "sessionUsers s \<noteq> [] \<Longrightarrow> fetchUsers s = (sessionUsers s, s)"
  by (simp add: fetchUsers_def)

lemma fetchUsers_seeds:
  "sessionUsers s = [] \<Longrightarrow> users_json s = Some users \<Longrightarrow>
   fetchUsers s =
     (users, s\<lparr>fetched := fetched s @ [''data/users.json''], sessionUsers := users\<rparr>)"
  by (simp add: fetchUsers_def)

lemma fetchUsers_fails:
  "sessionUsers s = [] \<Longrightarrow> users_json s = None \<Longrightarrow>
   fetchUsers s = ([], s\<lparr>fetched := fetched s @ [''data/users.json''], sessionUsers := []\<rparr>)"
  by (simp add: fetchUsers_def)

lemma fetchUsers_overlay: "sessionUsers (snd (fetchUsers s)) = directory s"
  by (simp add: directory_def fetchUsers_def Let_def split: option.splits)

lemma fetchUsers_keeps:
  "sessionStorage (snd (fetchUsers s)) = sessionStorage s"
  "localStorage (snd (fetchUsers s)) = localStorage s"
  "users_json (snd (fetchUsers s)) = users_json s"
  "products_json (snd (fetchUsers s)) = products_json s"
  "alerts (snd (fetchUsers s)) = alerts s"
  by (simp_all add: fetchUsers_def Let_def split: option.splits)

lemma find_email_None: "find (\<lambda>u. user_email u = email) users = None \<longleftrightarrow> email \<notin> user_email ` set users"
  by (auto simp: find_None_iff)

lemma directory_cases:
  "directory s =
     (if sessionUsers s \<noteq> [] then sessionUsers s
      else case users_json s of Some users \<Rightarrow> users | None \<Rightarrow> [])"
  by (simp add: directory_def fetchUsers_def Let_def split: option.splits)

lemma find_distinct_email:
  "distinct (map user_email users) \<Longrightarrow> u \<in> set users \<Longrightarrow> user_email u = email \<Longrightarrow>
   find (\<lambda>u. user_email u = email) users = Some u"
proof (induction users)
  case Nil
  then show ?case by simp
next
  case (Cons x xs)
  show ?case
  proof (cases "user_email x = email")
    case True
    with Cons.prems have "u = x" by (auto simp: image_iff)
    with True show ?thesis by simp
  next
    case False
    with Cons.prems have "distinct (map user_email xs)" "u \<in> set xs" by auto
    from Cons.IH [OF this Cons.prems(3)] False show ?thesis by simp
  qed
qed

lemma registerUser_fresh:
  assumes "email \<notin> user_email ` set (directory s)"
  shows "registerUser name email password s =
           (Inr (),
            saveCurrentUser (newAccount (allocatedId (directory s)) name email password)
              ((snd (fetchUsers s))
                 \<lparr>sessionUsers :=
                    directory s @ [newAccount (allocatedId (directory s)) name email password]\<rparr>))"
proof -
  obtain s1 where f: "fetchUsers s = (directory s, s1)"
    by (cases "fetchUsers s") (simp add: directory_def)
  then have s1: "sessionUsers s1 = directory s"
    using fetchUsers_overlay [of s] by simp
  have "find (\<lambda>u. user_email u = email) (directory s) = None"
    using assms by (simp add: find_email_None)
  then show ?thesis
    by (simp add: registerUser_def f s1 newAccount_def Let_def)
qed

lemma registerUser_taken:
  assumes "email \<in> user_email ` set (directory s)"
  shows "registerUser name email password s =
           (Inl DuplicateEmail,
            alert ''Email already exists. Please use a different email.'' (snd (fetchUsers s)))"
proof -
  obtain s1 where f: "fetchUsers s = (directory s, s1)"
    by (cases "fetchUsers s") (simp add: directory_def)
  have "find (\<lambda>u. user_email u = email) (directory s) \<noteq> None"
    using assms by (simp add: find_email_None)
  then show ?thesis
    by (simp add: registerUser_def f)
qed

lemma allocatedId_exact:
  "\<bar>nextUserId users\<bar> \<le> 2 ^ 53 \<Longrightarrow> allocatedId users = nextUserId users"
  by (auto simp: allocatedId_def nextUserId_def nearestDouble_exact)

lemma nextUserId_after:
  "nextUserId (users @ [newAccount (nextUserId users) name email password]) = nextUserId users + 1"
proof (cases "users = []")
  case True
  then show ?thesis by (simp add: nextUserId_def newAccount_def)
next
  case False
  then have "Max (insert (Max (set (map user_id users)) + 1) (set (map user_id users))) =
             Max (set (map user_id users)) + 1"
    by (subst Max_insert) simp_all
  with False show ?thesis by (simp add: nextUserId_def newAccount_def)
qed

lemma directory_overlay: "sessionUsers s \<noteq> [] \<Longrightarrow> directory s = sessionUsers s"
  by (simp add: directory_def fetchUsers_cached)

section \<open>Adding to the cart\<close>






section \<open>The cart invariant\<close>

text \<open>
  Claim C2. Every cart mutation is to keep the cart invariant. \<^verbatim>\<open>addToCart\<close> does not: the
  product page passes \<^verbatim>\<open>parseInt\<close> of the quantity box, which is \<^verbatim>\<open>NaN\<close> for a blank box,
  the guard \<^verbatim>\<open>quantity <= 0\<close> is false for \<^verbatim>\<open>NaN\<close>, and the line is pushed and stored with
  the quantity \<^verbatim>\<open>null\<close>. From the empty cart, which has the invariant, the call leaves a
  cart that has not.
\<close>

theorem addToCart_stores_blank_quantity:
  "parseInt (JSString '''') = NaN \<and>
   getCart freshPage = Inr [] \<and> cartInvariant [] \<and>
   fst (addToCart (JSString ''42'') NaN (Some ''M'') freshPage) = Inr () \<and>
   getCart (snd (addToCart (JSString ''42'') NaN (Some ''M'') freshPage)) =
     Inr [snapshot tee Null ''M''] \<and>
   \<not> cartInvariant [snapshot tee Null ''M'']"
proof -
  have p: "parseInt (JSString '''') = NaN"
    by code_simp
  have f: "fst (fetchProductById (JSString ''42'') freshPage) = Some tee"
    by (simp add: fetchProductById_fst parse42 freshPage_def tee_def)
  have g: "getCart freshPage = Inr []"
    by (simp add: getCart_def freshPage_def)
  have q: "\<not> leZero NaN" and m: "''M'' \<noteq> ''''" by simp_all
  have line: "addLine tee NaN ''M'' [] = [snapshot tee NaN ''M'']"
    by (simp add: addLine_def snapshot_def)
  have ok: "fst (addToCart (JSString ''42'') NaN (Some ''M'') freshPage) = Inr ()"
    by (simp add: addToCart_added [OF m q f g])
  have st: "getCart (snd (addToCart (JSString ''42'') NaN (Some ''M'') freshPage)) =
      Inr [snapshot tee Null ''M'']"
    unfolding addToCart_stored [OF m q f g] line
    by (simp add: jsonLine_def snapshot_def)
  have inv: "cartInvariant []" "\<not> cartInvariant [snapshot tee Null ''M'']"
    by (simp_all add: cartInvariant_def uniqueLines_def positiveQuantities_def snapshot_def)
  from p g ok st inv show ?thesis by simp
qed

section \<open>Registration\<close>

text \<open>
  Claim C3, amended. In every state whose next identifier, the greatest identifier of
  the directory plus one, is below \<open>2 ^ 53\<close> in absolute value, registering an email that
  no user of the directory has succeeds; the new user gets that next identifier, or one
  when the directory is empty, is appended to \<^verbatim>\<open>sessionUsers\<close> after the users of the
  directory, and is the current user afterwards; the fixture is not changed. A second
  registration, with another new email, sees the first and gets the identifier after it:
  with a greatest identifier of 5 the two get 6 and 7.
\<close>

theorem registerUser_allocates_next_id:
  assumes "email \<notin> user_email ` set (directory s)"
    and "\<bar>nextUserId (directory s)\<bar> < 2 ^ 53"
  shows "fst (registerUser name email password s) = Inr () \<and>
         sessionUsers (snd (registerUser name email password s)) =
           directory s @ [newAccount (nextUserId (directory s)) name email password] \<and>
         users_json (snd (registerUser name email password s)) = users_json s \<and>
         getCurrentUser (snd (registerUser name email password s)) =
           Inr (Some (newAccount (nextUserId (directory s)) name email password)) \<and>
         (email' \<noteq> email \<and> email' \<notin> user_email ` set (directory s) \<longrightarrow>
            fst (registerUser name' email' password' (snd (registerUser name email password s))) =
              Inr () \<and>
            sessionUsers (snd (registerUser name' email' password'
                                 (snd (registerUser name email password s)))) =
              directory s @ [newAccount (nextUserId (directory s)) name email password,
                             newAccount (nextUserId (directory s) + 1) name' email' password'] \<and>
            getCurrentUser (snd (registerUser name' email' password'
                                   (snd (registerUser name email password s)))) =
              Inr (Some (newAccount (nextUserId (directory s) + 1) name' email' password')))"
proof (intro conjI impI)
  let ?new = "newAccount (nextUserId (directory s)) name email password"
  let ?s' = "snd (registerUser name email password s)"
  have exact: "allocatedId (directory s) = nextUserId (directory s)"
    using assms(2) by (intro allocatedId_exact) simp
  note first = registerUser_fresh [OF assms(1), of name password, unfolded exact]
  show "fst (registerUser name email password s) = Inr ()"
    by (simp add: first)
  show overlay: "sessionUsers ?s' = directory s @ [?new]"
    by (simp add: first saveCurrentUser_def)
  show "users_json ?s' = users_json s"
    by (simp add: first saveCurrentUser_def fetchUsers_keeps)
  show "getCurrentUser ?s' = Inr (Some ?new)"
    by (simp add: first getCurrentUser_saved)
  assume other: "email' \<noteq> email \<and> email' \<notin> user_email ` set (directory s)"
  have dir: "directory ?s' = directory s @ [?new]"
    using overlay by (simp add: directory_overlay)
  have fresh: "email' \<notin> user_email ` set (directory ?s')"
    using other by (simp add: dir newAccount_def)
  have next_id: "nextUserId (directory ?s') = nextUserId (directory s) + 1"
    unfolding dir by (rule nextUserId_after)
  have "\<bar>nextUserId (directory ?s')\<bar> \<le> 2 ^ 53"
    using assms(2) unfolding next_id by simp
  then have exact': "allocatedId (directory ?s') = nextUserId (directory s) + 1"
    using next_id by (simp add: allocatedId_exact)
  note second = registerUser_fresh [OF fresh, of name' password', unfolded exact']
  show "fst (registerUser name' email' password' ?s') = Inr ()"
    by (simp add: second)
  show "sessionUsers (snd (registerUser name' email' password' ?s')) =
          directory s @ [?new, newAccount (nextUserId (directory s) + 1) name' email' password']"
    unfolding second by (simp add: saveCurrentUser_def dir)
  show "getCurrentUser (snd (registerUser name' email' password' ?s')) =
          Inr (Some (newAccount (nextUserId (directory s) + 1) name' email' password'))"
    unfolding second by (simp add: getCurrentUser_saved)
qed

theorem registerUser_allocates_next_id_witness:
  "directory freshPage = [ann] \<and> user_id ann = 5 \<and>
   fst (registerUser ''Bob'' ''bob@example.com'' ''pw1'' freshPage) = Inr () \<and>
   sessionUsers (snd (registerUser ''Bob'' ''bob@example.com'' ''pw1'' freshPage)) =
     [ann, newAccount 6 ''Bob'' ''bob@example.com'' ''pw1''] \<and>
   users_json (snd (registerUser ''Bob'' ''bob@example.com'' ''pw1'' freshPage)) = Some [ann] \<and>
   getCurrentUser (snd (registerUser ''Bob'' ''bob@example.com'' ''pw1'' freshPage)) =
     Inr (Some (newAccount 6 ''Bob'' ''bob@example.com'' ''pw1'')) \<and>
   sessionUsers (snd (registerUser ''Cy'' ''cy@example.com'' ''pw2''
                        (snd (registerUser ''Bob'' ''bob@example.com'' ''pw1'' freshPage)))) =
     [ann, newAccount 6 ''Bob'' ''bob@example.com'' ''pw1'',
      newAccount 7 ''Cy'' ''cy@example.com'' ''pw2''] \<and>
   sessionUsers (snd (registerUser ''Dee'' ''dee@example.com'' ''pw3''
                        (freshPage\<lparr>users_json := None\<rparr>))) =
     [newAccount 1 ''Dee'' ''dee@example.com'' ''pw3'']"
proof -
  have d: "directory freshPage = [ann]"
    by (simp add: directory_def fetchUsers_def freshPage_def)
  have d0: "directory (freshPage\<lparr>users_json := None\<rparr>) = []"
    by (simp add: directory_def fetchUsers_def freshPage_def)
  have n: "nextUserId [ann] = 6" "nextUserId [] = 1"
    by (simp_all add: nextUserId_def ann_def)
  have b: "''bob@example.com'' \<notin> user_email ` set (directory freshPage)"
    by (simp add: d ann_def)
  have bb: "\<bar>nextUserId (directory freshPage)\<bar> < 2 ^ 53"
    by (simp add: d n)
  have e: "''dee@example.com'' \<notin> user_email ` set (directory (freshPage\<lparr>users_json := None\<rparr>))"
    by (simp add: d0)
  have eb: "\<bar>nextUserId (directory (freshPage\<lparr>users_json := None\<rparr>))\<bar> < 2 ^ 53"
    by (simp add: d0 n)
  have c: "''cy@example.com'' \<noteq> ''bob@example.com'' \<and>
           ''cy@example.com'' \<notin> user_email ` set (directory freshPage)"
    by (simp add: d ann_def)
  have u: "users_json freshPage = Some [ann]" "user_id ann = 5"
    by (simp_all add: freshPage_def ann_def)
  from registerUser_allocates_next_id
      [OF b bb, of "''Bob''" "''pw1''" "''cy@example.com''" "''Cy''" "''pw2''"] c
    registerUser_allocates_next_id
      [OF e eb, of "''Dee''" "''pw3''" "''cy@example.com''" "''Cy''" "''pw2''"]
    d u
  show ?thesis by (simp add: d d0 n)
qed

text \<open>
  The claim as stated, for every state, fails where the sum is not a double: after a
  user with the identifier \<open>2 ^ 53 = 9007199254740992\<close> the new user gets the same
  identifier, not the next one.
\<close>

theorem registerUser_repeats_big_id:
  "directory bigIdPage = [ann\<lparr>user_id := 9007199254740992\<rparr>] \<and>
   nextUserId (directory bigIdPage) = 9007199254740993 \<and>
   fst (registerUser ''Bob'' ''bob@example.com'' ''pw1'' bigIdPage) = Inr () \<and>
   sessionUsers (snd (registerUser ''Bob'' ''bob@example.com'' ''pw1'' bigIdPage)) =
     [ann\<lparr>user_id := 9007199254740992\<rparr>,
      newAccount 9007199254740992 ''Bob'' ''bob@example.com'' ''pw1''] \<and>
   sessionUsers (snd (registerUser ''Bob'' ''bob@example.com'' ''pw1'' bigIdPage)) \<noteq>
     directory bigIdPage @
       [newAccount (nextUserId (directory bigIdPage)) ''Bob'' ''bob@example.com'' ''pw1'']"
proof -
  have d: "directory bigIdPage = [ann\<lparr>user_id := 9007199254740992\<rparr>]"
    by (simp add: directory_def fetchUsers_def bigIdPage_def freshPage_def)
  have n: "nextUserId (directory bigIdPage) = 9007199254740993"
    by (simp add: d nextUserId_def)
  have r: "nearestDouble 9007199254740993 = 9007199254740992"
    by code_simp
  have a: "allocatedId (directory bigIdPage) = 9007199254740992"
    by (simp add: d allocatedId_def r)
  have b: "''bob@example.com'' \<notin> user_email ` set (directory bigIdPage)"
    by (simp add: d ann_def)
  note reg = registerUser_fresh [OF b, of "''Bob''" "''pw1''", unfolded a]
  have ok: "fst (registerUser ''Bob'' ''bob@example.com'' ''pw1'' bigIdPage) = Inr ()"
    by (simp add: reg)
  have ov: "sessionUsers (snd (registerUser ''Bob'' ''bob@example.com'' ''pw1'' bigIdPage)) =
     [ann\<lparr>user_id := 9007199254740992\<rparr>,
      newAccount 9007199254740992 ''Bob'' ''bob@example.com'' ''pw1'']"
    unfolding reg by (simp add: saveCurrentUser_def d)
  show ?thesis unfolding ov ok n by (simp add: d newAccount_def)
qed

section \<open>A quantity of zero or less\<close>

lemma filter_positive: "positiveQuantities c \<Longrightarrow> positiveQuantities (filter P c)"
  by (simp add: positiveQuantities_def list_all_iff)

text \<open>
  Claim C4. For every cart with the cart invariant, every product identifier and every
  size, \<^verbatim>\<open>updateCartQuantity(id, size, n)\<close> with \<open>n \<le> 0\<close> leaves the same cart as
  \<^verbatim>\<open>removeFromCart(id, size)\<close>: the matching line is deleted, no error is raised, and the
  other lines keep their order.
\<close>

theorem updateCartQuantity_nonpositive_is_removal:
  assumes "getCart s = Inr c" and "cartInvariant c" and "leZero n"
  shows "fst (updateCartQuantity productId sz n s) = Inr () \<and>
         getCart (snd (updateCartQuantity productId sz n s)) =
           getCart (snd (removeFromCart productId sz s)) \<and>
         getCart (snd (updateCartQuantity productId sz n s)) =
           Inr (filter (\<lambda>item. \<not> (parseInt productId = Num (item_id item) \<and>
                                      item_size item = sz)) c)"
proof -
  let ?P = "sameLine (parseInt productId) sz"
  let ?rest = "filter (\<lambda>item. \<not> ?P item) c"
  from assms(2) have "uniqueLines c"
    by (simp add: cartInvariant_def)
  then have one: "length (filter ?P c) \<le> 1"
    by (rule unique_at_most_one)
  from assms(2) have "positiveQuantities ?rest"
    by (simp add: cartInvariant_def filter_positive)
  then have dec: "map jsonLine ?rest = ?rest"
    using positive_decoded decodedCart_def by blast
  have rm: "getCart (snd (removeFromCart productId sz s)) = Inr ?rest"
    by (simp add: removeFromCart_decoded [OF assms(1)] getCart_saveCart dec)
  have n: "\<not> gtZero n"
    using assms(3) by (rule leZero_not_gtZero)
  have up: "fst (updateCartQuantity productId sz n s) = Inr () \<and>
            getCart (snd (updateCartQuantity productId sz n s)) = Inr ?rest"
  proof (cases "findIndex ?P c")
    case None
    then show ?thesis
      by (simp add: updateCartQuantity_absent [OF assms(1)] assms(1) no_match_filter)
  next
    case (Some i)
    have "splice1 i c = ?rest"
      by (rule splice1_first_match [OF Some one])
    then show ?thesis
      by (simp add: updateCartQuantity_found_nonpositive [OF assms(1) Some n]
          getCart_saveCart dec)
  qed
  from up rm show ?thesis by (simp add: sameLine_iff)
qed

theorem updateCartQuantity_nonpositive_is_removal_witness:
  "getCart (pageWith [teeLine 1 ''M'', teeLine 2 ''S'']) = Inr [teeLine 1 ''M'', teeLine 2 ''S''] \<and>
   cartInvariant [teeLine 1 ''M'', teeLine 2 ''S''] \<and>
   fst (updateCartQuantity (JSString ''42'') ''M'' (Num 0)
          (pageWith [teeLine 1 ''M'', teeLine 2 ''S''])) = Inr () \<and>
   getCart (snd (updateCartQuantity (JSString ''42'') ''M'' (Num 0)
                   (pageWith [teeLine 1 ''M'', teeLine 2 ''S'']))) =
     Inr [teeLine 2 ''S''] \<and>
   getCart (snd (removeFromCart (JSString ''42'') ''M''
                   (pageWith [teeLine 1 ''M'', teeLine 2 ''S'']))) =
     Inr [teeLine 2 ''S'']"
proof -
  let ?c = "[teeLine 1 ''M'', teeLine 2 ''S'']"
  have g: "getCart (pageWith ?c) = Inr ?c"
    by (rule getCart_pageWith)
  have inv: "cartInvariant ?c"
    by (simp add: cartInvariant_def uniqueLines_def positiveQuantities_def cartKey_def
        teeLine_def snapshot_def)
  have f: "filter (\<lambda>item. \<not> (parseInt (JSString ''42'') = Num (item_id item) \<and>
                               item_size item = ''M'')) ?c = [teeLine 2 ''S'']"
    by (simp add: parse42 teeLine_def snapshot_def tee_def)
  have z: "leZero (Num 0)" by simp
  from updateCartQuantity_nonpositive_is_removal [OF g inv z, of "JSString ''42''" "''M''"]
  have "fst (updateCartQuantity (JSString ''42'') ''M'' (Num 0) (pageWith ?c)) = Inr ()"
    and "getCart (snd (updateCartQuantity (JSString ''42'') ''M'' (Num 0) (pageWith ?c))) =
         getCart (snd (removeFromCart (JSString ''42'') ''M'' (pageWith ?c)))"
    and "getCart (snd (updateCartQuantity (JSString ''42'') ''M'' (Num 0) (pageWith ?c))) =
         Inr [teeLine 2 ''S'']"
    unfolding f by blast+
  with g inv show ?thesis by metis
qed

section \<open>Refused additions\<close>

text \<open>
  Claim C5. \<^verbatim>\<open>addToCart\<close> fails with \<open>MissingSize\<close> when the size is absent or the empty
  text, with \<open>NonPositiveQuantity\<close> when the quantity is \<open>\<le> 0\<close>, and with \<open>ProductNotFound\<close>
  when the fixture does not resolve the identifier. The checks are made in this order, so
  where two conditions hold the earlier one names the failure. In every one of these
  cases the key \<^verbatim>\<open>shoppingCart\<close> of \<^verbatim>\<open>localStorage\<close> holds after the call what it held
  before.
\<close>

theorem addToCart_failures_leave_cart:
  "(size_arg = None \<or> size_arg = Some '''' \<longrightarrow>
      fst (addToCart productId q size_arg s) = Inl MissingSize \<and>
      localStorage (snd (addToCart productId q size_arg s)) = localStorage s) \<and>
   (leZero q \<longrightarrow>
      fst (addToCart productId q size_arg s) =
        (if size_arg = None \<or> size_arg = Some '''' then Inl MissingSize
         else Inl NonPositiveQuantity) \<and>
      localStorage (snd (addToCart productId q size_arg s)) = localStorage s) \<and>
   (fst (fetchProductById productId s) = None \<longrightarrow>
      fst (addToCart productId q size_arg s) =
        (if size_arg = None \<or> size_arg = Some '''' then Inl MissingSize
         else if leZero q then Inl NonPositiveQuantity
         else Inl ProductNotFound) \<and>
      localStorage (snd (addToCart productId q size_arg s)) = localStorage s)"
proof -
  have missing: "size_arg = None \<or> size_arg = Some '''' \<Longrightarrow>
      addToCart productId q size_arg s = (Inl MissingSize, alert ''Please select a size.'' s)"
    by (auto simp: addToCart_no_size)
  have nonpositive: "\<not> (size_arg = None \<or> size_arg = Some '''') \<Longrightarrow> leZero q \<Longrightarrow>
      addToCart productId q size_arg s = (Inl NonPositiveQuantity, s)"
    by (cases size_arg) (simp_all add: addToCart_nonpositive)
  have unknown: "\<not> (size_arg = None \<or> size_arg = Some '''') \<Longrightarrow> \<not> leZero q \<Longrightarrow>
      fst (fetchProductById productId s) = None \<Longrightarrow>
      addToCart productId q size_arg s =
        (Inl ProductNotFound, s\<lparr>fetched := fetched s @ [''data/products.json'']\<rparr>)"
    by (cases size_arg) (simp_all add: addToCart_not_found)
  show ?thesis
  proof (cases "size_arg = None \<or> size_arg = Some ''''")
    case True
    then show ?thesis by (simp add: missing localStorage_alert)
  next
    case sized: False
    then obtain sz where sz: "size_arg = Some sz" "sz \<noteq> ''''"
      by (cases size_arg) auto
    show ?thesis
    proof (cases "leZero q")
      case True
      from nonpositive [OF sized True] True sz show ?thesis by simp
    next
      case False
      show ?thesis
      proof (cases "fst (fetchProductById productId s)")
        case None
        from unknown [OF sized False None] False None sz show ?thesis by simp
      next
        case (Some p)
        with False sz show ?thesis by simp
      qed
    qed
  qed
qed

theorem addToCart_failures_leave_cart_witness:
  "fst (addToCart (JSNumber 42) (Num 1) None (pageWith [teeLine 1 ''M''])) = Inl MissingSize \<and>
   localStorage (snd (addToCart (JSNumber 42) (Num 1) None (pageWith [teeLine 1 ''M'']))) =
     localStorage (pageWith [teeLine 1 ''M'']) \<and>
   fst (addToCart (JSNumber 42) (Num 0) (Some '''') (pageWith [teeLine 1 ''M''])) = Inl MissingSize \<and>
   localStorage (snd (addToCart (JSNumber 42) (Num 0) (Some '''') (pageWith [teeLine 1 ''M'']))) =
     localStorage (pageWith [teeLine 1 ''M'']) \<and>
   fst (addToCart (JSNumber 42) (Num 0) (Some ''M'') (pageWith [teeLine 1 ''M''])) =
     Inl NonPositiveQuantity \<and>
   localStorage (snd (addToCart (JSNumber 42) (Num 0) (Some ''M'') (pageWith [teeLine 1 ''M'']))) =
     localStorage (pageWith [teeLine 1 ''M'']) \<and>
   fst (fetchProductById (JSString ''seven'') (pageWith [teeLine 1 ''M''])) = None \<and>
   fst (addToCart (JSString ''seven'') (Num 1) (Some ''M'') (pageWith [teeLine 1 ''M''])) =
     Inl ProductNotFound \<and>
   localStorage (snd (addToCart (JSString ''seven'') (Num 1) (Some ''M'') (pageWith [teeLine 1 ''M'']))) =
     localStorage (pageWith [teeLine 1 ''M''])"
proof -
  let ?s = "pageWith [teeLine 1 ''M'']"
  have n: "parseIntString ''seven'' = NaN"
    by code_simp
  have f: "fst (fetchProductById (JSString ''seven'') ?s) = None"
    by (simp add: fetchProductById_fst n pageWith_def freshPage_def)
  from addToCart_failures_leave_cart
    [where size_arg = None and q = "Num 1" and productId = "JSNumber 42" and s = "?s"]
  have a: "fst (addToCart (JSNumber 42) (Num 1) None ?s) = Inl MissingSize \<and>
           localStorage (snd (addToCart (JSNumber 42) (Num 1) None ?s)) = localStorage ?s"
    by simp
  from addToCart_failures_leave_cart
    [where size_arg = "Some ''''" and q = "Num 0" and productId = "JSNumber 42" and s = "?s"]
  have b: "fst (addToCart (JSNumber 42) (Num 0) (Some '''') ?s) = Inl MissingSize \<and>
           localStorage (snd (addToCart (JSNumber 42) (Num 0) (Some '''') ?s)) = localStorage ?s"
    by simp
  from addToCart_failures_leave_cart
    [where size_arg = "Some ''M''" and q = "Num 0" and productId = "JSNumber 42" and s = "?s"]
  have c: "fst (addToCart (JSNumber 42) (Num 0) (Some ''M'') ?s) = Inl NonPositiveQuantity \<and>
           localStorage (snd (addToCart (JSNumber 42) (Num 0) (Some ''M'') ?s)) = localStorage ?s"
    by simp
  from addToCart_failures_leave_cart
    [where size_arg = "Some ''M''" and q = "Num 1" and productId = "JSString ''seven''" and s = "?s"] f
  have d: "fst (addToCart (JSString ''seven'') (Num 1) (Some ''M'') ?s) = Inl ProductNotFound \<and>
           localStorage (snd (addToCart (JSString ''seven'') (Num 1) (Some ''M'') ?s)) = localStorage ?s"
    by simp
  from a b c d f show ?thesis by simp
qed

section \<open>Reading the stores\<close>

text \<open>
  Claim C6, amended. \<^verbatim>\<open>getCart\<close> returns the stored cart, and the empty sequence when
  the key is absent or holds the empty text; \<^verbatim>\<open>getCurrentUser\<close> returns the stored user,
  and none when the key is absent or holds the empty text. On any other text that is not
  JSON both raise the \<^verbatim>\<open>SyntaxError\<close> of \<^verbatim>\<open>JSON.parse\<close> to the caller.
\<close>

theorem getCart_getCurrentUser_decode:
  "(localStorage s = None \<or> localStorage s = Some EmptyText \<longrightarrow> getCart s = Inr []) \<and>
   (localStorage s = Some (Json c) \<longrightarrow> getCart s = Inr c) \<and>
   (localStorage s = Some Malformed \<longrightarrow> getCart s = Inl SyntaxError) \<and>
   (sessionStorage s = None \<or> sessionStorage s = Some EmptyText \<longrightarrow> getCurrentUser s = Inr None) \<and>
   (sessionStorage s = Some (Json u) \<longrightarrow> getCurrentUser s = Inr (Some u)) \<and>
   (sessionStorage s = Some Malformed \<longrightarrow> getCurrentUser s = Inl SyntaxError)"
  by (auto simp: getCart_def getCurrentUser_def)

theorem getCart_getCurrentUser_decode_witness:
  "getCart freshPage = Inr [] \<and>
   getCart (freshPage\<lparr>localStorage := Some EmptyText\<rparr>) = Inr [] \<and>
   getCart (freshPage\<lparr>localStorage := Some (Json [teeLine 1 ''M''])\<rparr>) = Inr [teeLine 1 ''M''] \<and>
   getCart (freshPage\<lparr>localStorage := Some Malformed\<rparr>) = Inl SyntaxError \<and>
   getCurrentUser freshPage = Inr None \<and>
   getCurrentUser (freshPage\<lparr>sessionStorage := Some EmptyText\<rparr>) = Inr None \<and>
   getCurrentUser (freshPage\<lparr>sessionStorage := Some (Json ann)\<rparr>) = Inr (Some ann) \<and>
   getCurrentUser (freshPage\<lparr>sessionStorage := Some Malformed\<rparr>) = Inl SyntaxError"
  using getCart_getCurrentUser_decode [of freshPage "[]" ann]
    getCart_getCurrentUser_decode [of "freshPage\<lparr>localStorage := Some EmptyText\<rparr>" "[]" ann]
    getCart_getCurrentUser_decode [of "freshPage\<lparr>localStorage := Some (Json [teeLine 1 ''M''])\<rparr>" "[teeLine 1 ''M'']" ann]
    getCart_getCurrentUser_decode [of "freshPage\<lparr>localStorage := Some Malformed\<rparr>" "[]" ann]
    getCart_getCurrentUser_decode [of "freshPage\<lparr>sessionStorage := Some EmptyText\<rparr>" "[]" ann]
    getCart_getCurrentUser_decode [of "freshPage\<lparr>sessionStorage := Some (Json ann)\<rparr>" "[]" ann]
    getCart_getCurrentUser_decode [of "freshPage\<lparr>sessionStorage := Some Malformed\<rparr>" "[]" ann]
  by (simp add: freshPage_def)

text \<open>
  The claim as stated fails on stored text that does not decode: neither function
  answers with the empty value.
\<close>

theorem corrupt_store_raises:
  "localStorage corruptPage = Some Malformed \<and>
   getCart corruptPage = Inl SyntaxError \<and>
   getCart corruptPage \<noteq> Inr [] \<and>
   sessionStorage corruptPage = Some Malformed \<and>
   getCurrentUser corruptPage = Inl SyntaxError \<and>
   getCurrentUser corruptPage \<noteq> Inr None"
  by (simp add: corruptPage_def freshPage_def getCart_def getCurrentUser_def)

section \<open>A taken email\<close>

text \<open>
  Claim C7. In every state, registering an email that is exactly the email of a user of
  the directory, fixture or overlay, fails with \<open>DuplicateEmail\<close>; the directory after the
  call is the directory before it, so no user is appended and its size is unchanged; the
  session record and the fixture are unchanged.
\<close>

theorem registerUser_duplicate_email:
  assumes "email \<in> user_email ` set (directory s)"
  shows "fst (registerUser name email password s) = Inl DuplicateEmail \<and>
         directory (snd (registerUser name email password s)) = directory s \<and>
         sessionUsers (snd (registerUser name email password s)) = directory s \<and>
         length (directory (snd (registerUser name email password s))) = length (directory s) \<and>
         sessionStorage (snd (registerUser name email password s)) = sessionStorage s \<and>
         users_json (snd (registerUser name email password s)) = users_json s"
proof -
  let ?s' = "snd (registerUser name email password s)"
  note taken = registerUser_taken [OF assms, of name password]
  have nonempty: "directory s \<noteq> []"
    using assms by auto
  have overlay: "sessionUsers ?s' = directory s"
    by (simp add: taken alert_def fetchUsers_overlay)
  with nonempty have "directory ?s' = directory s"
    by (simp add: directory_overlay)
  moreover have "sessionStorage ?s' = sessionStorage s" "users_json ?s' = users_json s"
    by (simp_all add: taken alert_def fetchUsers_keeps)
  ultimately show ?thesis
    using overlay by (simp add: taken)
qed

theorem registerUser_duplicate_email_witness:
  "''ann@example.com'' \<in> user_email ` set (directory freshPage) \<and>
   fst (registerUser ''Ann Two'' ''ann@example.com'' ''other'' freshPage) = Inl DuplicateEmail \<and>
   directory (snd (registerUser ''Ann Two'' ''ann@example.com'' ''other'' freshPage)) = [ann] \<and>
   sessionStorage (snd (registerUser ''Ann Two'' ''ann@example.com'' ''other'' freshPage)) = None \<and>
   fst (registerUser ''ANN'' ''Ann@example.com'' ''other'' freshPage) = Inr ()"
proof -
  have d: "directory freshPage = [ann]"
    by (simp add: directory_def fetchUsers_def freshPage_def)
  have a: "''ann@example.com'' \<in> user_email ` set (directory freshPage)"
    by (simp add: d ann_def)
  have s: "sessionStorage freshPage = None"
    by (simp add: freshPage_def)
  have other: "''Ann@example.com'' \<notin> user_email ` set (directory freshPage)"
    by (simp add: d ann_def)
  from registerUser_duplicate_email [OF a, of "''Ann Two''" "''other''"] a d s
    registerUser_fresh [OF other, of "''ANN''" "''other''"]
  show ?thesis by simp
qed

section \<open>Login\<close>

text \<open>
  Claim C8. \<^verbatim>\<open>loginUser\<close> looks the email up in the directory. When no user has the email,
  and when the user found has another password, the call ends in the same way: the
  result \<open>InvalidCredentials\<close>, the one message, and a state that does not depend on which
  of the two happened; the session record is not written. When the user found has the
  password, that user becomes the current user. The user found is the first with the
  email, and the only one in a directory whose emails are distinct.
\<close>

theorem loginUser_outcomes:
  "(email \<notin> user_email ` set (directory s) \<longrightarrow>
      loginUser email password s =
        (Inl InvalidCredentials, alert ''Invalid email or password.'' (snd (fetchUsers s))) \<and>
      sessionStorage (snd (loginUser email password s)) = sessionStorage s) \<and>
   (find (\<lambda>u. user_email u = email) (directory s) = Some u \<and> user_password u \<noteq> password \<longrightarrow>
      loginUser email password s =
        (Inl InvalidCredentials, alert ''Invalid email or password.'' (snd (fetchUsers s))) \<and>
      sessionStorage (snd (loginUser email password s)) = sessionStorage s) \<and>
   (find (\<lambda>u. user_email u = email) (directory s) = Some u \<and> user_password u = password \<longrightarrow>
      fst (loginUser email password s) = Inr () \<and>
      getCurrentUser (snd (loginUser email password s)) = Inr (Some u)) \<and>
   (distinct (map user_email (directory s)) \<and> u \<in> set (directory s) \<and> user_email u = email \<longrightarrow>
      find (\<lambda>u. user_email u = email) (directory s) = Some u)"
proof -
  obtain s1 where f: "fetchUsers s = (directory s, s1)"
    by (cases "fetchUsers s") (simp add: directory_def)
  then have s1: "snd (fetchUsers s) = s1" by simp
  have keep: "sessionStorage s1 = sessionStorage s"
    using fetchUsers_keeps(1) [of s] by (simp add: s1)
  have a: "email \<notin> user_email ` set (directory s) \<Longrightarrow>
      loginUser email password s =
        (Inl InvalidCredentials, alert ''Invalid email or password.'' s1)"
    by (simp add: loginUser_def f find_email_None [THEN iffD2])
  have b: "find (\<lambda>u. user_email u = email) (directory s) = Some u \<Longrightarrow>
      user_password u \<noteq> password \<Longrightarrow>
      loginUser email password s =
        (Inl InvalidCredentials, alert ''Invalid email or password.'' s1)"
    by (simp add: loginUser_def f)
  have c: "find (\<lambda>u. user_email u = email) (directory s) = Some u \<Longrightarrow>
      user_password u = password \<Longrightarrow>
      loginUser email password s = (Inr (), saveCurrentUser u s1)"
    by (simp add: loginUser_def f)
  have d: "distinct (map user_email (directory s)) \<Longrightarrow> u \<in> set (directory s) \<Longrightarrow>
      user_email u = email \<Longrightarrow> find (\<lambda>u. user_email u = email) (directory s) = Some u"
    by (rule find_distinct_email)
  show ?thesis
    using a b c d by (auto simp: s1 keep alert_def getCurrentUser_saved)
qed

theorem loginUser_outcomes_witness:
  "distinct (map user_email (directory freshPage)) \<and> ann \<in> set (directory freshPage) \<and>
   find (\<lambda>u. user_email u = ''ann@example.com'') (directory freshPage) = Some ann \<and>
   ''zed@example.com'' \<notin> user_email ` set (directory freshPage) \<and>
   loginUser ''zed@example.com'' ''secret'' freshPage =
     (Inl InvalidCredentials, alert ''Invalid email or password.'' (snd (fetchUsers freshPage))) \<and>
   loginUser ''ann@example.com'' ''wrong'' freshPage =
     (Inl InvalidCredentials, alert ''Invalid email or password.'' (snd (fetchUsers freshPage))) \<and>
   sessionStorage (snd (loginUser ''zed@example.com'' ''secret'' freshPage)) = None \<and>
   sessionStorage (snd (loginUser ''ann@example.com'' ''wrong'' freshPage)) = None \<and>
   fst (loginUser ''ann@example.com'' ''secret'' freshPage) = Inr () \<and>
   getCurrentUser (snd (loginUser ''ann@example.com'' ''secret'' freshPage)) = Inr (Some ann)"
proof -
  have d: "directory freshPage = [ann]"
    by (simp add: directory_def fetchUsers_def freshPage_def)
  have e: "distinct (map user_email (directory freshPage)) \<and> ann \<in> set (directory freshPage) \<and>
           user_email ann = ''ann@example.com''"
    by (simp add: d ann_def)
  have z: "''zed@example.com'' \<notin> user_email ` set (directory freshPage)"
    by (simp add: d ann_def)
  have p: "user_password ann \<noteq> ''wrong''" "user_password ann = ''secret''"
    by (simp_all add: ann_def)
  have s: "sessionStorage freshPage = None"
    by (simp add: freshPage_def)
  from loginUser_outcomes
    [where email = "''ann@example.com''" and s = freshPage and u = ann and password = "''secret''"] e
  have found: "find (\<lambda>u. user_email u = ''ann@example.com'') (directory freshPage) = Some ann"
    by simp
  from loginUser_outcomes
      [where email = "''zed@example.com''" and s = freshPage and u = ann and password = "''secret''"]
    loginUser_outcomes
      [where email = "''ann@example.com''" and s = freshPage and u = ann and password = "''wrong''"]
    loginUser_outcomes
      [where email = "''ann@example.com''" and s = freshPage and u = ann and password = "''secret''"]
    found e z p s
  show ?thesis by (simp add: alert_def fetchUsers_keeps)
qed

section \<open>The overlay as a cache\<close>

text \<open>
  Claim C9. \<^verbatim>\<open>fetchUsers\<close> is to seed the overlay on its first successful call and to
  return the overlay on every later call without fetching again; the comment in the
  code says the same. The test for a loaded overlay is \<^verbatim>\<open>sessionUsers.length > 0\<close>, which
  holds for an overlay with a user (\<open>fetchUsers_cached\<close>) and misses a loaded overlay that
  is empty: with a fixture that is the empty list the first call succeeds and leaves the
  overlay empty, and the next call requests the fixture again.
\<close>

theorem fetchUsers_refetches_empty_fixture:
  "users_json emptyFixturePage = Some [] \<and>
   fetched emptyFixturePage = [] \<and>
   fst (fetchUsers emptyFixturePage) = [] \<and>
   fetched (snd (fetchUsers emptyFixturePage)) = [''data/users.json''] \<and>
   fetched (snd (fetchUsers (snd (fetchUsers emptyFixturePage)))) =
     [''data/users.json'', ''data/users.json''] \<and>
   fetchUsers (snd (fetchUsers emptyFixturePage)) \<noteq>
     (sessionUsers (snd (fetchUsers emptyFixturePage)), snd (fetchUsers emptyFixturePage))"
  by (simp add: emptyFixturePage_def freshPage_def fetchUsers_def)

section \<open>Removing a line\<close>

text \<open>
  Claim C10. For every stored cart, also one that holds several lines with the same
  product identifier and size, \<^verbatim>\<open>removeFromCart(productId, size)\<close> keeps exactly the lines
  that do not have both the identifier \<^verbatim>\<open>parseInt(productId, 10)\<close> and the given size, in
  their order, and saves them; no line with that identifier and size remains in the saved
  cart. The saved lines are the kept lines as JSON holds them, which for a cart read
  from the store are the kept lines themselves.
\<close>

theorem removeFromCart_removes_every_match:
  assumes "getCart s = Inr c"
  shows "fst (removeFromCart productId sz s) = Inr () \<and>
         getCart (snd (removeFromCart productId sz s)) =
           Inr (map jsonLine
                  (filter (\<lambda>item. \<not> (parseInt productId = Num (item_id item) \<and>
                                         item_size item = sz)) c)) \<and>
         (decodedCart c \<longrightarrow>
            getCart (snd (removeFromCart productId sz s)) =
              Inr (filter (\<lambda>item. \<not> (parseInt productId = Num (item_id item) \<and>
                                         item_size item = sz)) c)) \<and>
         (\<forall>c'. getCart (snd (removeFromCart productId sz s)) = Inr c' \<longrightarrow>
               (\<forall>item\<in>set c'. \<not> (parseInt productId = Num (item_id item) \<and>
                                      item_size item = sz)))"
proof -
  let ?keep = "\<lambda>item. \<not> (parseInt productId = Num (item_id item) \<and> item_size item = sz)"
  have r: "removeFromCart productId sz s = (Inr (), saveCart (filter ?keep c) s)"
    using assms by (simp add: removeFromCart_def sameLine_iff)
  have k: "\<And>item. ?keep (jsonLine item) = ?keep item"
    by (simp add: jsonLine_def)
  have d: "decodedCart c \<Longrightarrow> map jsonLine (filter ?keep c) = filter ?keep c"
  proof -
    assume "decodedCart c"
    then have "map jsonLine c = c" by (simp add: decodedCart_def)
    then have "\<forall>item\<in>set c. jsonLine item = item"
      by (metis map_eq_conv map_ident id_apply)
    then have "\<forall>item\<in>set (filter ?keep c). jsonLine item = item" by simp
    then show ?thesis by (intro map_idI) blast
  qed
  have g: "getCart (snd (removeFromCart productId sz s)) = Inr (map jsonLine (filter ?keep c))"
    by (simp add: r getCart_saveCart)
  have none: "\<forall>item\<in>set (map jsonLine (filter ?keep c)). ?keep item"
    by (auto simp: jsonLine_def)
  have "fst (removeFromCart productId sz s) = Inr ()"
    by (simp add: r)
  moreover have "decodedCart c \<longrightarrow>
      getCart (snd (removeFromCart productId sz s)) = Inr (filter ?keep c)"
    using g d by simp
  moreover have "\<forall>c'. getCart (snd (removeFromCart productId sz s)) = Inr c' \<longrightarrow>
      (\<forall>item\<in>set c'. ?keep item)"
    unfolding g using none by blast
  ultimately show ?thesis using g by blast
qed

theorem removeFromCart_removes_every_match_witness:
  "getCart (pageWith doubledCart) = Inr [teeLine 1 ''M'', teeLine 2 ''S'', teeLine 3 ''M''] \<and>
   decodedCart doubledCart \<and>
   parseInt (JSString ([char_of (194 :: nat), char_of (160 :: nat)] @ ''42px'')) = Num 42 \<and>
   fst (removeFromCart (JSString ([char_of (194 :: nat), char_of (160 :: nat)] @ ''42px'')) ''M''
          (pageWith doubledCart)) = Inr () \<and>
   getCart (snd (removeFromCart (JSString ([char_of (194 :: nat), char_of (160 :: nat)] @ ''42px''))
                   ''M'' (pageWith doubledCart))) =
     Inr [teeLine 2 ''S'']"
proof -
  let ?pid = "JSString ([char_of (194 :: nat), char_of (160 :: nat)] @ ''42px'')"
  have g: "getCart (pageWith doubledCart) = Inr doubledCart"
    by (rule getCart_pageWith)
  have p: "parseInt ?pid = Num 42"
    by code_simp
  have dc: "decodedCart doubledCart"
    by (simp add: decodedCart_def doubledCart_def jsonLine_def teeLine_def snapshot_def)
  have f: "filter (\<lambda>item. \<not> (parseInt ?pid = Num (item_id item) \<and> item_size item = ''M''))
             doubledCart = [teeLine 2 ''S'']"
    unfolding p by (simp add: doubledCart_def teeLine_def snapshot_def tee_def)
  from removeFromCart_removes_every_match [OF g, of ?pid "''M''"] dc
  have "fst (removeFromCart ?pid ''M'' (pageWith doubledCart)) = Inr ()"
    and "getCart (snd (removeFromCart ?pid ''M'' (pageWith doubledCart))) = Inr [teeLine 2 ''S'']"
    unfolding f by blast+
  with g p dc show ?thesis by (simp add: doubledCart_def)
qed

end
